theory Spec2Isabelle
  imports Complex_Main "HOL-Library.AList"
begin

section \<open>Python values that the service handles\<close>

text \<open>
  The service is the Flask application of \<^verbatim>\<open>src/app.py\<close>. The handler of
  \<^verbatim>\<open>POST /api/generate-pdf\<close> works on whatever \<^verbatim>\<open>request.get_json()\<close> returns, so the
  request body is an arbitrary JSON value and every field of it is one too: nothing in
  the source checks a type. A Python \<^verbatim>\<open>str\<close> is modelled as a \<^typ>\<open>string\<close> in which each
  \<^typ>\<open>char\<close> stands for one code point (the model covers the code points below 256, which
  is enough for every literal of the source that the definitions below reproduce). A Python
  float is a finite double, an infinity or NaN (\<^verbatim>\<open>json.loads\<close> accepts all of them);
  a finite double is a rational number, and Python compares it with an \<^verbatim>\<open>int\<close> exactly.
  A \<^verbatim>\<open>dict\<close> is an association list in insertion order, read with \<^const>\<open>map_of\<close>.
\<close>

datatype pyfloat = Finite rat | PosInf | NegInf | NaN

datatype json =
    JNull
  | JBool bool
  | JInt int
  | JFloat pyfloat
  | JStr string
  | JArr "json list"
  | JObj "(string \<times> json) list"

text \<open>
  Exceptions are values. Only the class matters to the control flow of the source; the
  text \<^verbatim>\<open>str(e)\<close> that the interpreter or a library attaches to an exception is a parameter
  of the model (\<open>exn_str\<close> below).
\<close>

datatype py_exn =
    TypeError
  | KeyError
  | AttributeError
  | IndexError
  | OSError
  | ImportError
  | HTTPException
  | APIError

subsection \<open>String helpers\<close>

fun starts_with :: "string \<Rightarrow> string \<Rightarrow> bool" where
  "starts_with [] s = True"
| "starts_with (p # ps) [] = False"
| "starts_with (p # ps) (c # cs) = (p = c \<and> starts_with ps cs)"

text \<open>\<^verbatim>\<open>sub in s\<close> for two strings.\<close>

fun contains_str :: "string \<Rightarrow> string \<Rightarrow> bool" where
  "contains_str sub [] = (sub = [])"
| "contains_str sub (c # cs) = (starts_with sub (c # cs) \<or> contains_str sub cs)"

text \<open>\<^verbatim>\<open>sep.join(items)\<close>.\<close>

fun join :: "string \<Rightarrow> string list \<Rightarrow> string" where
  "join sep [] = []"
| "join sep [x] = x"
| "join sep (x # y # ys) = x @ sep @ join sep (y # ys)"

text \<open>\<^verbatim>\<open>s.replace(old, new)\<close>: every non-overlapping occurrence, from the left.\<close>

function replace_str :: "string \<Rightarrow> string \<Rightarrow> string \<Rightarrow> string" where
  "replace_str old new s =
     (if old = [] then new @ concat (map (\<lambda>c. c # new) s)
      else (case s of
              [] \<Rightarrow> []
            | c # cs \<Rightarrow>
                if starts_with old (c # cs)
                then new @ replace_str old new (drop (length old) (c # cs))
                else c # replace_str old new cs))"
  by pat_completeness auto
termination
  by (relation "measure (\<lambda>(old, new, s). length s)") (auto simp: neq_Nil_conv)

declare replace_str.simps [simp del]

text \<open>\<^verbatim>\<open>str(n)\<close> for an integer: decimal digits, a minus sign when negative.\<close>

definition digit_char :: "nat \<Rightarrow> char" where
  "digit_char d = ''0123456789'' ! d"

fun str_nat :: "nat \<Rightarrow> string" where
  "str_nat n = (if n < 10 then [digit_char n] else str_nat (n div 10) @ [digit_char (n mod 10)])"

declare str_nat.simps [simp del]

definition str_int :: "int \<Rightarrow> string" where
  "str_int i = (if i < 0 then CHR ''-'' # str_nat (nat (- i)) else str_nat (nat i))"

text \<open>\<^verbatim>\<open>int(x)\<close> for a float: truncation towards zero.\<close>

definition py_int :: "rat \<Rightarrow> int" where
  "py_int x = (if 0 \<le> x then \<lfloor>x\<rfloor> else \<lceil>x\<rceil>)"

subsection \<open>Operators on JSON values\<close>

text \<open>\<^verbatim>\<open>bool(v)\<close>, as \<^verbatim>\<open>not v\<close> and \<^verbatim>\<open>if v\<close> use it.\<close>

fun truthy :: "json \<Rightarrow> bool" where
  "truthy JNull = False"
| "truthy (JBool b) = b"
| "truthy (JInt i) = (i \<noteq> 0)"
| "truthy (JFloat (Finite q)) = (q \<noteq> 0)"
| "truthy (JFloat _) = True"
| "truthy (JStr s) = (s \<noteq> [])"
| "truthy (JArr xs) = (xs \<noteq> [])"
| "truthy (JObj kvs) = (kvs \<noteq> [])"

text \<open>\<^verbatim>\<open>key in v\<close> for a string key: key lookup in a dict, element equality in a
  list, substring in a string, \<^verbatim>\<open>TypeError\<close> on anything else.\<close>

fun py_contains :: "string \<Rightarrow> json \<Rightarrow> py_exn + bool" where
  "py_contains k (JObj kvs) = Inr (k \<in> set (map fst kvs))"
| "py_contains k (JArr xs) = Inr (JStr k \<in> set xs)"
| "py_contains k (JStr s) = Inr (contains_str k s)"
| "py_contains k _ = Inl TypeError"

text \<open>\<^verbatim>\<open>v[key]\<close> for a string key.\<close>

fun py_getitem :: "json \<Rightarrow> string \<Rightarrow> py_exn + json" where
  "py_getitem (JObj kvs) k = (case map_of kvs k of None \<Rightarrow> Inl KeyError | Some v \<Rightarrow> Inr v)"
| "py_getitem _ k = Inl TypeError"

text \<open>\<^verbatim>\<open>v.get(key, default)\<close>: only a dict has the method.\<close>

fun py_get :: "json \<Rightarrow> string \<Rightarrow> json \<Rightarrow> py_exn + json" where
  "py_get (JObj kvs) k d = (case map_of kvs k of None \<Rightarrow> Inr d | Some v \<Rightarrow> Inr v)"
| "py_get _ k d = Inl AttributeError"

text \<open>\<^verbatim>\<open>len(v)\<close>.\<close>

fun py_len :: "json \<Rightarrow> py_exn + nat" where
  "py_len (JStr s) = Inr (length s)"
| "py_len (JArr xs) = Inr (length xs)"
| "py_len (JObj kvs) = Inr (length (remdups (map fst kvs)))"
| "py_len _ = Inl TypeError"

text \<open>\<^verbatim>\<open>v < n\<close> and \<^verbatim>\<open>v > n\<close> for an integer constant \<open>n\<close>. A \<^verbatim>\<open>bool\<close> is
  the integer 0 or 1; every comparison with NaN is false; \<^verbatim>\<open>None\<close>, strings, lists and
  dicts raise \<^verbatim>\<open>TypeError\<close>.\<close>

fun py_lt :: "json \<Rightarrow> int \<Rightarrow> py_exn + bool" where
  "py_lt (JBool b) n = Inr ((if b then 1 else 0) < n)"
| "py_lt (JInt i) n = Inr (i < n)"
| "py_lt (JFloat (Finite q)) n = Inr (q < of_int n)"
| "py_lt (JFloat NegInf) n = Inr True"
| "py_lt (JFloat PosInf) n = Inr False"
| "py_lt (JFloat NaN) n = Inr False"
| "py_lt _ n = Inl TypeError"

fun py_gt :: "json \<Rightarrow> int \<Rightarrow> py_exn + bool" where
  "py_gt (JBool b) n = Inr ((if b then 1 else 0) > n)"
| "py_gt (JInt i) n = Inr (i > n)"
| "py_gt (JFloat (Finite q)) n = Inr (q > of_int n)"
| "py_gt (JFloat PosInf) n = Inr True"
| "py_gt (JFloat NegInf) n = Inr False"
| "py_gt (JFloat NaN) n = Inr False"
| "py_gt _ n = Inl TypeError"

text \<open>\<^verbatim>\<open>for p in v\<close>: the elements of a list, the characters of a string, the keys of
  a dict.\<close>

fun py_iter :: "json \<Rightarrow> py_exn + json list" where
  "py_iter (JArr xs) = Inr xs"
| "py_iter (JStr s) = Inr (map (\<lambda>c. JStr [c]) s)"
| "py_iter (JObj kvs) = Inr (map JStr (remdups (map fst kvs)))"
| "py_iter _ = Inl TypeError"

text \<open>Lists and dicts are unhashable: using one as a dict key raises \<^verbatim>\<open>TypeError\<close>.\<close>

fun hashable :: "json \<Rightarrow> bool" where
  "hashable (JArr xs) = False"
| "hashable (JObj kvs) = False"
| "hashable _ = True"

section \<open>Request validation\<close>

text \<open>
  \<^verbatim>\<open>validate_request\<close> (lines 61 to 75). The loop over \<^verbatim>\<open>required = ['title']\<close> returns
  at the first field that is absent or falsy.
\<close>

definition required :: "string list" where
  "required = [''title'']"

fun check_required :: "string list \<Rightarrow> json \<Rightarrow> py_exn + string option" where
  "check_required [] data = Inr None"
| "check_required (field # fields) data =
     (case py_contains field data of
        Inl e \<Rightarrow> Inl e
      | Inr present \<Rightarrow>
          if \<not> present then Inr (Some (''Missing required field: '' @ field))
          else (case py_getitem data field of
                  Inl e \<Rightarrow> Inl e
                | Inr v \<Rightarrow>
                    if \<not> truthy v then Inr (Some (''Missing required field: '' @ field))
                    else check_required fields data))"

definition validate_request :: "json \<Rightarrow> py_exn + (bool \<times> string)" where
  "validate_request data =
     (case check_required required data of
        Inl e \<Rightarrow> Inl e
      | Inr (Some msg) \<Rightarrow> Inr (False, msg)
      | Inr None \<Rightarrow>
          (case py_getitem data ''title'' of
             Inl e \<Rightarrow> Inl e
           | Inr title \<Rightarrow>
               (case py_len title of
                  Inl e \<Rightarrow> Inl e
                | Inr n \<Rightarrow>
                    if n < 3 then Inr (False, ''Title must be at least 3 characters'')
                    else (case py_get data ''pageCount'' (JInt 18) of
                            Inl e \<Rightarrow> Inl e
                          | Inr page_count \<Rightarrow>
                              (case py_lt page_count 5 of
                                 Inl e \<Rightarrow> Inl e
                               | Inr too_low \<Rightarrow>
                                   if too_low
                                   then Inr (False, ''Page count must be between 5 and 50'')
                                   else (case py_gt page_count 50 of
                                           Inl e \<Rightarrow> Inl e
                                         | Inr too_high \<Rightarrow>
                                             if too_high
                                             then Inr (False, ''Page count must be between 5 and 50'')
                                             else Inr (True, ''Valid'')))))))"

section \<open>The environment of a request\<close>

text \<open>
  What the source reads from outside is a parameter: the configured API key, the remote
  completions API (given the prompt it raises, or returns the \<^verbatim>\<open>message.content\<close> of each
  choice, which may be \<^verbatim>\<open>None\<close>), the optional \<^verbatim>\<open>pdfkit\<close> library (absent, or a renderer
  that raises or returns the bytes of a PDF), the interpreter's \<^verbatim>\<open>str(e)\<close> of an exception
  and its formatting of floats, lists and dicts, the fixed markup of the page template, the
  formatted current date, and the readings of the clock: \<^verbatim>\<open>time.time()\<close> at the start of the
  request, when the file is named and at the end of the request, and the time the file
  system stamps on a file it writes. A reading of the clock is a finite double, so a
  rational number.
\<close>

record page_fields =
  pf_title :: string
  pf_gradient :: string
  pf_primary_color :: string
  pf_subtitle :: string
  pf_author :: string
  pf_current_date :: string
  pf_content :: string
  pf_generated_at :: string
  pf_year :: string

record env =
  API_KEY :: string
  completions_create :: "string \<Rightarrow> py_exn + string option list"
  pdfkit :: "(string \<Rightarrow> py_exn + string) option"
  exn_str :: "py_exn \<Rightarrow> string"
  py_repr :: "json \<Rightarrow> string"
  render_page :: "page_fields \<Rightarrow> string"
  date_long :: string
  date_time :: string
  year :: int
  t_start :: rat
  t_filename :: rat
  t_mtime :: rat
  t_end :: rat

text \<open>The text that an f-string puts for \<^verbatim>\<open>{v}\<close>.\<close>

definition py_str :: "env \<Rightarrow> json \<Rightarrow> string" where
  "py_str env v =
     (case v of
        JStr s \<Rightarrow> s
      | JNull \<Rightarrow> ''None''
      | JBool b \<Rightarrow> (if b then ''True'' else ''False'')
      | JInt i \<Rightarrow> str_int i
      | _ \<Rightarrow> py_repr env v)"

definition nl :: string where
  "nl = [CHR 0x0A]"

definition e_acute :: string where
  "e_acute = [CHR 0xE9]"

section \<open>Content generation\<close>

text \<open>\<^verbatim>\<open>generate_content_with_ai\<close> (lines 81 to 162).\<close>

definition demo_item :: "env \<Rightarrow> json \<Rightarrow> string" where
  "demo_item env p =
     ''<h3>Point: '' @ py_str env p @ ''</h3><p>Detailed explanation of '' @ py_str env p
       @ ''...</p>''"

definition fallback_item :: "env \<Rightarrow> json \<Rightarrow> string" where
  "fallback_item env p =
     ''<h3>'' @ py_str env p @ ''</h3><p>Detailed content about '' @ py_str env p @ ''...</p>''"

definition redige :: string where
  "redige = ''R'' @ e_acute @ ''dige''"

definition detaille :: string where
  "detaille = ''d'' @ e_acute @ ''taill'' @ e_acute"

definition template_instructions :: "(string \<times> string) list" where
  "template_instructions =
     [(''llm-best-practices'',
         ''Tu es un expert en Large Language Models. '' @ redige
           @ '' un guide professionnel et '' @ detaille @ ''.''),
      (''api-guide'',
         ''Tu es un expert en int'' @ e_acute @ ''gration API. '' @ redige
           @ '' un guide technique complet.''),
      (''automation-guide'',
         ''Tu es un expert N8N. '' @ redige @ '' un guide d'' @ [CHR 0x27]
           @ ''automatisation professionnel.''),
      (''tech-report'',
         ''Tu es un consultant technique. '' @ redige @ '' un rapport technique ''
           @ detaille @ ''.'')]"

definition instruction_for :: "json \<Rightarrow> py_exn + string" where
  "instruction_for template =
     (if \<not> hashable template then Inl TypeError
      else Inr (case template of
                  JStr s \<Rightarrow>
                    (case map_of template_instructions s of
                       Some i \<Rightarrow> i
                     | None \<Rightarrow> redige @ '' un document professionnel.'')
                | _ \<Rightarrow> redige @ '' un document professionnel.''))"

definition build_prompt :: "env \<Rightarrow> json \<Rightarrow> json \<Rightarrow> json \<Rightarrow> json \<Rightarrow> py_exn + string" where
  "build_prompt env title template points language =
     (case instruction_for template of
        Inl e \<Rightarrow> Inl e
      | Inr instruction \<Rightarrow>
          (case py_iter points of
             Inl e \<Rightarrow> Inl e
           | Inr ps \<Rightarrow>
               Inr (instruction @ nl @ nl
                    @ ''Title: '' @ py_str env title @ nl
                    @ ''Key Points to Cover:'' @ nl
                    @ join nl (map (\<lambda>p. ''- '' @ py_str env p) ps) @ nl @ nl
                    @ ''Language: '' @ py_str env language @ nl
                    @ ''Format: HTML with clear sections and paragraphs'' @ nl
                    @ ''Length: Approximately 6000-8000 words'' @ nl
                    @ ''Tone: Professional, informative, actionable'' @ nl @ nl
                    @ ''Structure each section with:'' @ nl
                    @ ''1. Section title'' @ nl
                    @ ''2. Detailed explanation'' @ nl
                    @ ''3. Best practices'' @ nl
                    @ ''4. Examples'' @ nl @ nl
                    @ ''Return ONLY valid HTML content (no <html>, <head>, <body> tags), ''
                    @ ''starting with <h2> tags.'' @ nl
                    @ ''Begin now:'' @ nl)))"

text \<open>
  The \<^verbatim>\<open>try\<close> block of lines 142 to 154: the call may raise, \<^verbatim>\<open>choices[0]\<close> raises
  \<^verbatim>\<open>IndexError\<close> on an empty list, and \<^verbatim>\<open>len(content)\<close> raises \<^verbatim>\<open>TypeError\<close> when the
  content is \<^verbatim>\<open>None\<close>.
\<close>

definition request_completion :: "env \<Rightarrow> string \<Rightarrow> py_exn + string" where
  "request_completion env prompt =
     (case completions_create env prompt of
        Inl e \<Rightarrow> Inl e
      | Inr [] \<Rightarrow> Inl IndexError
      | Inr (None # _) \<Rightarrow> Inl TypeError
      | Inr (Some content # _) \<Rightarrow> Inr content)"

definition generate_content_with_ai ::
    "env \<Rightarrow> json \<Rightarrow> json \<Rightarrow> json \<Rightarrow> json \<Rightarrow> py_exn + string" where
  "generate_content_with_ai env title template points language =
     (if API_KEY env = ''demo'' then
        (case py_iter points of
           Inl e \<Rightarrow> Inl e
         | Inr ps \<Rightarrow>
             Inr (''<h2>Introduction</h2>''
                  @ ''<p>This is a demo document about '' @ py_str env title @ ''.</p>''
                  @ join nl (map (demo_item env) ps)))
      else
        (case build_prompt env title template points language of
           Inl e \<Rightarrow> Inl e
         | Inr prompt \<Rightarrow>
             (case request_completion env prompt of
                Inr content \<Rightarrow> Inr content
              | Inl e \<Rightarrow>
                  (case py_iter points of
                     Inl e' \<Rightarrow> Inl e'
                   | Inr ps \<Rightarrow> Inr (''<h2>Content</h2>'' @ join nl (map (fallback_item env) ps))))))"

text \<open>The content built by the handler itself when \<^verbatim>\<open>useAI\<close> is falsy (lines 471 to 477).\<close>

definition template_item :: "env \<Rightarrow> json \<Rightarrow> string" where
  "template_item env p =
     ''<h3>'' @ py_str env p @ ''</h3><p>Contenu '' @ detaille @ '' sur '' @ py_str env p
       @ ''...</p>''"

definition template_content :: "env \<Rightarrow> json \<Rightarrow> py_exn + string" where
  "template_content env points =
     (case py_iter points of
        Inl e \<Rightarrow> Inl e
      | Inr ps \<Rightarrow>
          Inr (''<h2>Points Cl'' @ e_acute @ ''s</h2>'' @ join nl (map (template_item env) ps)))"

section \<open>The page\<close>

text \<open>
  \<^verbatim>\<open>generate_html_document\<close> (lines 168 to 337). The lookup of the cover style raises on an
  unhashable key; everything else is interpolation into the fixed markup, which
  \<open>render_page\<close> stands for.
\<close>

definition gradient_maps :: "string \<Rightarrow> (string \<times> string) list" where
  "gradient_maps primary_color =
     [(''gradient-blue'', ''linear-gradient(135deg, #3182ce 0%, #2c5aa0 100%)''),
      (''gradient-purple'', ''linear-gradient(135deg, #a855f7 0%, #7c3aed 100%)''),
      (''gradient-tech'', ''linear-gradient(135deg, #0ea5e9 0%, #06b6d4 100%)''),
      (''minimalist'',
         ''linear-gradient(135deg, '' @ primary_color @ '' 0%, '' @ primary_color
           @ ''cc 100%)'')]"

definition generate_html_document ::
    "env \<Rightarrow> json \<Rightarrow> json \<Rightarrow> json \<Rightarrow> string \<Rightarrow> json \<Rightarrow> json \<Rightarrow> py_exn + string" where
  "generate_html_document env title description author content cover_style primary_color =
     (if \<not> hashable cover_style then Inl TypeError
      else
        (let maps = gradient_maps (py_str env primary_color);
             blue = ''linear-gradient(135deg, #3182ce 0%, #2c5aa0 100%)'';
             gradient = (case cover_style of
                           JStr s \<Rightarrow> (case map_of maps s of Some g \<Rightarrow> g | None \<Rightarrow> blue)
                         | _ \<Rightarrow> blue)
         in Inr (render_page env
                   \<lparr> pf_title = py_str env title,
                     pf_gradient = gradient,
                     pf_primary_color = py_str env primary_color,
                     pf_subtitle =
                       (if truthy description
                        then ''<div class='' @ [CHR 0x22] @ ''subtitle'' @ [CHR 0x22] @ ''>''
                               @ py_str env description @ ''</div>''
                        else []),
                     pf_author = py_str env author,
                     pf_current_date = date_long env,
                     pf_content = content,
                     pf_generated_at = date_time env,
                     pf_year = str_int (year env) \<rparr>)))"

section \<open>Paths and the file system\<close>

text \<open>
  A path is what \<^verbatim>\<open>pathlib\<close> makes of a string on a POSIX system: whether it is absolute,
  and its components, with empty components and \<^verbatim>\<open>.\<close> dropped and \<^verbatim>\<open>..\<close> kept. The
  operator \<^verbatim>\<open>/\<close> appends the components of a relative operand and restarts from an
  absolute one. Relative paths are resolved against one working directory (the
  application is started from its own directory, so \<^verbatim>\<open>send_file\<close> and \<^verbatim>\<open>open\<close> agree).
\<close>

type_synonym path = "bool \<times> string list"

fun split_on :: "char \<Rightarrow> string \<Rightarrow> string list" where
  "split_on d [] = [[]]"
| "split_on d (c # cs) =
     (if c = d then [] # split_on d cs
      else (case split_on d cs of [] \<Rightarrow> [[c]] | w # ws \<Rightarrow> (c # w) # ws))"

definition path_parts :: "string \<Rightarrow> string list" where
  "path_parts s = filter (\<lambda>p. p \<noteq> [] \<and> p \<noteq> ''.'') (split_on CHR ''/'' s)"

definition Path :: "string \<Rightarrow> path" where
  "Path s = (starts_with ''/'' s, path_parts s)"

definition path_div :: "path \<Rightarrow> string \<Rightarrow> path" where
  "path_div p s = (if starts_with ''/'' s then Path s else (fst p, snd p @ path_parts s))"

definition path_str :: "path \<Rightarrow> string" where
  "path_str p =
     (if snd p = [] then (if fst p then ''/'' else ''.'')
      else (if fst p then ''/'' else []) @ join ''/'' (snd p))"

definition UPLOAD_DIR :: path where
  "UPLOAD_DIR = Path ''generated_pdfs''"

text \<open>
  The file system maps paths to nodes: a regular file with its bytes and modification
  time, or anything that is not a regular file (a directory, with the size that
  \<^verbatim>\<open>stat\<close> reports for it). It is kept as an association list, the order being the order
  in which a directory is listed. The working directory and the root always exist.
  A node is in a directory when its path is the directory's path and one more component.
  There are no permissions and no full disk: opening a file for writing fails only when
  its directory does not exist or when the path names a directory, and removing a regular
  file that was just seen never fails.
\<close>

datatype node = RegFile string rat | Directory nat

type_synonym filesystem = "(path \<times> node) list"

definition path_exists :: "filesystem \<Rightarrow> path \<Rightarrow> bool" where
  "path_exists fs p = (snd p = [] \<or> map_of fs p \<noteq> None)"

definition is_dir :: "filesystem \<Rightarrow> path \<Rightarrow> bool" where
  "is_dir fs p = (snd p = [] \<or> (case map_of fs p of Some (Directory _) \<Rightarrow> True | _ \<Rightarrow> False))"

definition is_file :: "filesystem \<Rightarrow> path \<Rightarrow> bool" where
  "is_file fs p = (snd p \<noteq> [] \<and> (case map_of fs p of Some (RegFile _ _) \<Rightarrow> True | _ \<Rightarrow> False))"

definition st_size :: "filesystem \<Rightarrow> path \<Rightarrow> nat" where
  "st_size fs p =
     (case map_of fs p of Some (RegFile bytes _) \<Rightarrow> length bytes | Some (Directory n) \<Rightarrow> n | None \<Rightarrow> 0)"

definition parent :: "path \<Rightarrow> path" where
  "parent p = (fst p, butlast (snd p))"

text \<open>\<^verbatim>\<open>open(path, 'w')\<close> followed by one \<^verbatim>\<open>write\<close> of the given bytes, at time \<open>t\<close>.\<close>

definition open_w :: "filesystem \<Rightarrow> rat \<Rightarrow> string \<Rightarrow> string \<Rightarrow> py_exn + filesystem" where
  "open_w fs t name bytes =
     (let p = Path name
      in if snd p \<noteq> [] \<and> is_dir fs (parent p) \<and> \<not> is_dir fs p
         then Inr (AList.update p (RegFile bytes t) fs)
         else Inl OSError)"

text \<open>The UTF-8 encoding of a string of code points below 256.\<close>

definition utf8_char :: "char \<Rightarrow> string" where
  "utf8_char c =
     (let n = (of_char c :: nat)
      in if n < 128 then [c] else [char_of (192 + n div 64), char_of (128 + n mod 64)])"

definition utf8_encode :: "string \<Rightarrow> string" where
  "utf8_encode s = concat (map utf8_char s)"

section \<open>Conversion and generation\<close>

text \<open>
  \<^verbatim>\<open>convert_html_to_pdf_simple\<close> (lines 340 to 370). When \<^verbatim>\<open>pdfkit\<close> cannot be imported,
  or when it raises, the function falls back to writing the HTML beside the output and a
  marker at the output path; any exception of the fallback makes it return \<^verbatim>\<open>False\<close>.
\<close>

definition html_fallback :: "env \<Rightarrow> filesystem \<Rightarrow> string \<Rightarrow> string \<Rightarrow> bool \<times> filesystem" where
  "html_fallback env fs html_content output_path =
     (let html_path = replace_str ''.pdf'' ''.html'' output_path
      in case open_w fs (t_mtime env) html_path (utf8_encode html_content) of
           Inl e \<Rightarrow> (False, fs)
         | Inr fs1 \<Rightarrow>
             (case open_w fs1 (t_mtime env) output_path
                     (utf8_encode (''PDF_EXPORT'' @ nl @ output_path @ nl
                                   @ ''HTML_SOURCE: '' @ html_path)) of
                Inl e \<Rightarrow> (False, fs1)
              | Inr fs2 \<Rightarrow> (True, fs2)))"

definition convert_html_to_pdf_simple ::
    "env \<Rightarrow> filesystem \<Rightarrow> string \<Rightarrow> string \<Rightarrow> bool \<times> filesystem" where
  "convert_html_to_pdf_simple env fs html_content output_path =
     (case pdfkit env of
        None \<Rightarrow> html_fallback env fs html_content output_path
      | Some from_string \<Rightarrow>
          (case from_string html_content of
             Inl e \<Rightarrow> html_fallback env fs html_content output_path
           | Inr pdf \<Rightarrow>
               (case open_w fs (t_mtime env) output_path pdf of
                  Inl e \<Rightarrow> html_fallback env fs html_content output_path
                | Inr fs' \<Rightarrow> (True, fs'))))"

text \<open>
  \<^verbatim>\<open>generate_pdf\<close> (lines 373 to 406). The page is built outside the \<^verbatim>\<open>try\<close>, so its
  exception propagates. Inside the \<^verbatim>\<open>try\<close> nothing of the model raises (the conversion
  catches its own exceptions), so the result is never \<^verbatim>\<open>None\<close>; the option type keeps
  the shape of the source.
\<close>

record pdf_info =
  filename :: string
  filepath :: string
  size_bytes :: nat

definition generate_pdf ::
    "env \<Rightarrow> filesystem \<Rightarrow> json \<Rightarrow> json \<Rightarrow> string \<Rightarrow> json \<Rightarrow> json \<Rightarrow> json
       \<Rightarrow> py_exn + (pdf_info option \<times> filesystem)" where
  "generate_pdf env fs title description content author cover_style primary_color =
     (case generate_html_document env title description author content cover_style
             primary_color of
        Inl e \<Rightarrow> Inl e
      | Inr html_content \<Rightarrow>
          (let name = ''document-'' @ str_int (py_int (t_filename env)) @ ''.pdf'';
               fpath = path_div UPLOAD_DIR name;
               (success, fs') = convert_html_to_pdf_simple env fs html_content (path_str fpath);
               file_size = (if path_exists fs' fpath then st_size fs' fpath else 0)
           in Inr (Some \<lparr> filename = name, filepath = path_str fpath, size_bytes = file_size \<rparr>,
                   fs')))"

section \<open>The routes\<close>

datatype response =
    JsonResponse json nat
  | FileResponse path string string string

definition dict_get :: "(string \<times> json) list \<Rightarrow> string \<Rightarrow> json \<Rightarrow> json" where
  "dict_get kvs k d = (case map_of kvs k of None \<Rightarrow> d | Some v \<Rightarrow> v)"

text \<open>
  \<^verbatim>\<open>api_generate_pdf\<close> (lines 438 to 512). The argument is what \<^verbatim>\<open>request.get_json()\<close>
  does: it raises (on a body that is not JSON) or returns the parsed body. The body of
  the \<^verbatim>\<open>try\<close> comes first, then the handler with its \<^verbatim>\<open>except\<close> clause. The reads
  \<^verbatim>\<open>data.get(...)\<close> after validation need a dict.
\<close>

definition api_generate_pdf_try ::
    "env \<Rightarrow> filesystem \<Rightarrow> py_exn + json \<Rightarrow> py_exn + (response \<times> filesystem)" where
  "api_generate_pdf_try env fs request_json =
     (case request_json of
        Inl e \<Rightarrow> Inl e
      | Inr data \<Rightarrow>
          (case validate_request data of
             Inl e \<Rightarrow> Inl e
           | Inr (is_valid, message) \<Rightarrow>
               if \<not> is_valid then Inr (JsonResponse (JObj [(''error'', JStr message)]) 400, fs)
               else
                 (case data of
                    JObj kvs \<Rightarrow>
                      (let title = dict_get kvs ''title'' (JStr ''Untitled'');
                           description = dict_get kvs ''description'' (JStr []);
                           template = dict_get kvs ''template'' (JStr ''tech-report'');
                           points = dict_get kvs ''points'' (JArr []);
                           author = dict_get kvs ''author'' (JStr ''Emmanuel'');
                           language = dict_get kvs ''language'' (JStr ''fr'');
                           use_ai = dict_get kvs ''useAI'' (JBool False);
                           cover_style = dict_get kvs ''coverStyle'' (JStr ''gradient-blue'');
                           primary_color = dict_get kvs ''primaryColor'' (JStr ''#3182ce'')
                       in case (if truthy use_ai
                                then generate_content_with_ai env title template points language
                                else template_content env points) of
                            Inl e \<Rightarrow> Inl e
                          | Inr content \<Rightarrow>
                              (case generate_pdf env fs title description content author
                                      cover_style primary_color of
                                 Inl e \<Rightarrow> Inl e
                               | Inr (None, fs') \<Rightarrow>
                                   Inr (JsonResponse
                                          (JObj [(''error'', JStr ''PDF generation failed'')]) 500,
                                        fs')
                               | Inr (Some info, fs') \<Rightarrow>
                                   Inr (JsonResponse
                                          (JObj [(''success'', JBool True),
                                                 (''message'', JStr ''PDF generated successfully''),
                                                 (''filename'', JStr (filename info)),
                                                 (''downloadUrl'',
                                                    JStr (''/download/'' @ filename info)),
                                                 (''size'', JInt (int (size_bytes info))),
                                                 (''generationTime'',
                                                    JInt (py_int (t_end env - t_start env)))])
                                          200,
                                        fs')))
                  | _ \<Rightarrow> Inl AttributeError)))"

definition api_generate_pdf ::
    "env \<Rightarrow> filesystem \<Rightarrow> py_exn + json \<Rightarrow> response \<times> filesystem" where
  "api_generate_pdf env fs request_json =
     (case api_generate_pdf_try env fs request_json of
        Inl e \<Rightarrow> (JsonResponse (JObj [(''error'', JStr (exn_str env e))]) 500, fs)
      | Inr r \<Rightarrow> r)"


text \<open>
  \<^verbatim>\<open>cleanup_old_files\<close> (lines 566 to 587). \<^verbatim>\<open>glob('*')\<close> lists the nodes of the
  directory; the loop tests each listed path against the file system as it is then.
\<close>

definition glob_star :: "filesystem \<Rightarrow> path \<Rightarrow> path list" where
  "glob_star fs d = filter (\<lambda>p. snd p \<noteq> [] \<and> parent p = d) (map fst fs)"

definition st_mtime :: "filesystem \<Rightarrow> path \<Rightarrow> rat option" where
  "st_mtime fs p = (case map_of fs p of Some (RegFile _ m) \<Rightarrow> Some m | _ \<Rightarrow> None)"

fun cleanup_loop :: "rat \<Rightarrow> path list \<Rightarrow> filesystem \<Rightarrow> nat \<Rightarrow> filesystem \<times> nat" where
  "cleanup_loop cutoff_time [] fs deleted = (fs, deleted)"
| "cleanup_loop cutoff_time (file_path # rest) fs deleted =
     (case st_mtime fs file_path of
        Some m \<Rightarrow>
          if m < cutoff_time
          then cleanup_loop cutoff_time rest (AList.delete file_path fs) (deleted + 1)
          else cleanup_loop cutoff_time rest fs deleted
      | None \<Rightarrow> cleanup_loop cutoff_time rest fs deleted)"

definition cleanup_old_files :: "rat \<Rightarrow> filesystem \<Rightarrow> response \<times> filesystem" where
  "cleanup_old_files now fs =
     (let cutoff_time = now - (7 * 24 * 60 * 60);
          (fs', deleted) = cleanup_loop cutoff_time (glob_star fs UPLOAD_DIR) fs 0
      in (JsonResponse
            (JObj [(''message'', JStr (str_nat deleted @ '' old files deleted'')),
                   (''success'', JBool True)]) 200,
          fs'))"

section \<open>A concrete environment\<close>

text \<open>
  One environment in which the definitions can be run: an API key is configured, the
  completions API always raises, \<^verbatim>\<open>pdfkit\<close> is not installed, and the clock reads half a
  second past 1700000000 when the file is named.
\<close>

definition sample_env :: env where
  "sample_env =
     \<lparr> API_KEY = ''sk-test'',
       completions_create = (\<lambda>prompt. Inl APIError),
       pdfkit = None,
       exn_str = (\<lambda>e. ''error''),
       py_repr = (\<lambda>v. ''<value>''),
       render_page = (\<lambda>f. ''<h1>'' @ pf_title f @ ''</h1>'' @ pf_content f),
       date_long = ''04 November 2026'',
       date_time = ''04/11/2026'',
       year = 2026,
       t_start = 1700000000,
       t_filename = 3400000001 / 2,
       t_mtime = 3400000001 / 2,
       t_end = 1700000001 \<rparr>"

section \<open>Validation of a JSON object\<close>

lemma check_required_obj:
  "check_required required (JObj kvs) =
     (case map_of kvs ''title'' of
        None \<Rightarrow> Inr (Some ''Missing required field: title'')
      | Some v \<Rightarrow> if truthy v then Inr None else Inr (Some ''Missing required field: title''))"
  by (simp add: required_def dom_map_of_conv_image_fst [symmetric] domIff split: option.splits)

lemma validate_request_obj:
  "validate_request (JObj kvs) =
     (case map_of kvs ''title'' of
        None \<Rightarrow> Inr (False, ''Missing required field: title'')
      | Some t \<Rightarrow>
          if \<not> truthy t then Inr (False, ''Missing required field: title'')
          else (case py_len t of
                  Inl e \<Rightarrow> Inl e
                | Inr n \<Rightarrow>
                    if n < 3 then Inr (False, ''Title must be at least 3 characters'')
                    else (case py_lt (dict_get kvs ''pageCount'' (JInt 18)) 5 of
                            Inl e \<Rightarrow> Inl e
                          | Inr too_low \<Rightarrow>
                              if too_low then Inr (False, ''Page count must be between 5 and 50'')
                              else (case py_gt (dict_get kvs ''pageCount'' (JInt 18)) 50 of
                                      Inl e \<Rightarrow> Inl e
                                    | Inr too_high \<Rightarrow>
                                        if too_high
                                        then Inr (False, ''Page count must be between 5 and 50'')
                                        else Inr (True, ''Valid'')))))"
  unfolding validate_request_def check_required_obj
  by (simp add: dict_get_def split: option.splits sum.splits)

lemma rejected_response:
  "validate_request data = Inr (False, msg) \<Longrightarrow>
   api_generate_pdf env fs (Inr data) = (JsonResponse (JObj [(''error'', JStr msg)]) 400, fs)"
  by (simp add: api_generate_pdf_def api_generate_pdf_try_def)

lemma raised_response:
  "validate_request data = Inl e \<Longrightarrow>
   api_generate_pdf env fs (Inr data) =
     (JsonResponse (JObj [(''error'', JStr (exn_str env e))]) 500, fs)"
  by (simp add: api_generate_pdf_def api_generate_pdf_try_def)

text \<open>
  Claim C10, as amended. A request whose body is an object and whose title is a string of
  one or two characters is answered with status 400 and the message
  \<^verbatim>\<open>Title must be at least 3 characters\<close>, and the file system is left as it was.
\<close>

theorem short_title_rejected:
  assumes "map_of kvs ''title'' = Some (JStr t)" and "t \<noteq> []" and "length t < 3"
  shows "api_generate_pdf env fs (Inr (JObj kvs)) =
           (JsonResponse (JObj [(''error'', JStr ''Title must be at least 3 characters'')]) 400, fs)"
  using assms by (intro rejected_response) (simp add: validate_request_obj)

theorem short_title_rejected_witness:
  "api_generate_pdf sample_env [] (Inr (JObj [(''title'', JStr ''ab'')])) =
     (JsonResponse (JObj [(''error'', JStr ''Title must be at least 3 characters'')]) 400, [])"
  using short_title_rejected [of "[(''title'', JStr ''ab'')]" "''ab''" sample_env "[]"] by simp

text \<open>
  Claim C10 as it is written fails on the empty title, which has fewer than three
  characters: the check for a missing field comes first, so the message is the one of a
  missing field.
\<close>

theorem empty_title_counterexample:
  "length ([] :: string) < 3 \<and>
   fst (api_generate_pdf sample_env [] (Inr (JObj [(''title'', JStr [])]))) =
     JsonResponse (JObj [(''error'', JStr ''Missing required field: title'')]) 400 \<and>
   fst (api_generate_pdf sample_env [] (Inr (JObj [(''title'', JStr [])]))) \<noteq>
     JsonResponse (JObj [(''error'', JStr ''Title must be at least 3 characters'')]) 400"
  by (simp add: rejected_response validate_request_obj)

text \<open>
  Claim C2, as amended. The required fields are exactly \<^verbatim>\<open>title\<close>. A request whose body
  is a JSON object in which the title is absent or falsy (the empty string among others)
  is answered with status 400 and a message that names the field, and the file system is
  left as it was: no output file is produced.
\<close>

theorem missing_title_rejected:
  assumes "map_of kvs ''title'' = None \<or> (\<exists>v. map_of kvs ''title'' = Some v \<and> \<not> truthy v)"
  shows "api_generate_pdf env fs (Inr (JObj kvs)) =
           (JsonResponse (JObj [(''error'', JStr (''Missing required field: '' @ ''title''))]) 400,
            fs)
         \<and> set required = {''title''}"
  using assms by (auto simp: required_def validate_request_obj intro!: rejected_response)

theorem missing_title_rejected_witness:
  "api_generate_pdf sample_env [] (Inr (JObj [(''author'', JStr ''Emmanuel'')])) =
     (JsonResponse (JObj [(''error'', JStr ''Missing required field: title'')]) 400, [])
   \<and> api_generate_pdf sample_env [] (Inr (JObj [(''title'', JStr [])])) =
     (JsonResponse (JObj [(''error'', JStr ''Missing required field: title'')]) 400, [])"
  using missing_title_rejected [of "[(''author'', JStr ''Emmanuel'')]" sample_env "[]"]
        missing_title_rejected [of "[(''title'', JStr [])]" sample_env "[]"]
  by simp

text \<open>
  Claim C2 as it is written fails on a body that is JSON but not an object: the body
  \<^verbatim>\<open>null\<close> has no title, the membership test raises \<^verbatim>\<open>TypeError\<close>, and the handler
  answers with status 500.
\<close>

theorem null_body_counterexample:
  "api_generate_pdf sample_env [] (Inr JNull) =
     (JsonResponse (JObj [(''error'', JStr (exn_str sample_env TypeError))]) 500, [])"
  by (simp add: raised_response validate_request_def required_def)

text \<open>
  Claim C3, as amended. For a request whose body is a JSON object and whose title passes
  its own checks (present, truthy, of length at least 3): a page count that is a number
  below 5 or above 50 is answered with status 400 and the message
  \<^verbatim>\<open>Page count must be between 5 and 50\<close>; an absent page count defaults to 18 and
  validation succeeds; and every integer from 5 to 50, both ends included, is accepted.
\<close>

theorem page_count_checked:
  assumes "map_of kvs ''title'' = Some t" and "truthy t" and "py_len t = Inr n" and "3 \<le> n"
  shows "(map_of kvs ''pageCount'' = Some (JInt i) \<and> (i < 5 \<or> 50 < i) \<longrightarrow>
            api_generate_pdf env fs (Inr (JObj kvs)) =
              (JsonResponse (JObj [(''error'', JStr ''Page count must be between 5 and 50'')]) 400,
               fs))
       \<and> (map_of kvs ''pageCount'' = Some (JFloat (Finite q)) \<and> (q < 5 \<or> 50 < q) \<longrightarrow>
            api_generate_pdf env fs (Inr (JObj kvs)) =
              (JsonResponse (JObj [(''error'', JStr ''Page count must be between 5 and 50'')]) 400,
               fs))
       \<and> (map_of kvs ''pageCount'' = None \<longrightarrow>
            py_get (JObj kvs) ''pageCount'' (JInt 18) = Inr (JInt 18)
            \<and> validate_request (JObj kvs) = Inr (True, ''Valid''))
       \<and> (map_of kvs ''pageCount'' = Some (JInt j) \<and> 5 \<le> j \<and> j \<le> 50 \<longrightarrow>
            validate_request (JObj kvs) = Inr (True, ''Valid''))"
proof -
  have outside_int:
    "api_generate_pdf env fs (Inr (JObj kvs)) =
       (JsonResponse (JObj [(''error'', JStr ''Page count must be between 5 and 50'')]) 400, fs)"
    if "map_of kvs ''pageCount'' = Some (JInt i)" and "i < 5 \<or> 50 < i"
    using assms that by (intro rejected_response) (auto simp: validate_request_obj dict_get_def)
  have outside_float:
    "api_generate_pdf env fs (Inr (JObj kvs)) =
       (JsonResponse (JObj [(''error'', JStr ''Page count must be between 5 and 50'')]) 400, fs)"
    if "map_of kvs ''pageCount'' = Some (JFloat (Finite q))" and "q < 5 \<or> 50 < q"
    using assms that by (intro rejected_response) (auto simp: validate_request_obj dict_get_def)
  have absent: "py_get (JObj kvs) ''pageCount'' (JInt 18) = Inr (JInt 18)
      \<and> validate_request (JObj kvs) = Inr (True, ''Valid'')"
    if "map_of kvs ''pageCount'' = None"
    using assms that by (simp add: validate_request_obj dict_get_def)
  have inside: "validate_request (JObj kvs) = Inr (True, ''Valid'')"
    if "map_of kvs ''pageCount'' = Some (JInt j)" and "5 \<le> j" and "j \<le> 50"
    using assms that by (simp add: validate_request_obj dict_get_def)
  show ?thesis
    using outside_int outside_float absent inside by blast
qed

theorem page_count_checked_witness:
  "api_generate_pdf sample_env [] (Inr (JObj [(''title'', JStr ''Guide''), (''pageCount'', JInt 51)])) =
     (JsonResponse (JObj [(''error'', JStr ''Page count must be between 5 and 50'')]) 400, [])
   \<and> api_generate_pdf sample_env []
        (Inr (JObj [(''title'', JStr ''Guide''), (''pageCount'', JFloat (Finite (9 / 2)))])) =
     (JsonResponse (JObj [(''error'', JStr ''Page count must be between 5 and 50'')]) 400, [])
   \<and> validate_request (JObj [(''title'', JStr ''Guide'')]) = Inr (True, ''Valid'')
   \<and> validate_request (JObj [(''title'', JStr ''Guide''), (''pageCount'', JInt 5)]) = Inr (True, ''Valid'')
   \<and> validate_request (JObj [(''title'', JStr ''Guide''), (''pageCount'', JInt 50)]) = Inr (True, ''Valid'')"
  using page_count_checked [of "[(''title'', JStr ''Guide''), (''pageCount'', JInt 51)]"
          "JStr ''Guide''" 5 51 sample_env "[]"]
        page_count_checked [of "[(''title'', JStr ''Guide''), (''pageCount'', JFloat (Finite (9 / 2)))]"
          "JStr ''Guide''" 5 0 sample_env "[]" "9 / 2"]
        page_count_checked [of "[(''title'', JStr ''Guide'')]" "JStr ''Guide''" 5]
        page_count_checked [of "[(''title'', JStr ''Guide''), (''pageCount'', JInt 5)]"
          "JStr ''Guide''" 5 0 sample_env "[]" 0 5]
        page_count_checked [of "[(''title'', JStr ''Guide''), (''pageCount'', JInt 50)]"
          "JStr ''Guide''" 5 0 sample_env "[]" 0 50]
  by simp

text \<open>
  Claim C3 as it is written fails when the title does not pass its checks, since the title
  is validated before the page count: with a page count of 100, a title of two characters
  is answered with the message about the title, and a title that is a number makes
  \<^verbatim>\<open>len\<close> raise \<^verbatim>\<open>TypeError\<close>, which the handler answers with status 500.
\<close>

theorem page_count_counterexample:
  "api_generate_pdf sample_env []
      (Inr (JObj [(''title'', JStr ''ab''), (''pageCount'', JInt 100)])) =
     (JsonResponse (JObj [(''error'', JStr ''Title must be at least 3 characters'')]) 400, [])
   \<and> api_generate_pdf sample_env []
      (Inr (JObj [(''title'', JInt 7), (''pageCount'', JInt 100)])) =
     (JsonResponse (JObj [(''error'', JStr (exn_str sample_env TypeError))]) 500, [])"
  by (simp add: rejected_response raised_response validate_request_obj)

section \<open>Generation\<close>


lemma generate_pdf_result:
  assumes "generate_html_document env title description author content cover_style primary_color
             = Inr html"
  shows "\<exists>info fs'. generate_pdf env fs title description content author cover_style primary_color
             = Inr (Some info, fs')
           \<and> filename info = ''document-'' @ str_int (py_int (t_filename env)) @ ''.pdf''"
  using assms by (simp add: generate_pdf_def Let_def split: prod.splits)

lemma api_generate_pdf_success:
  assumes valid: "validate_request (JObj kvs) = Inr (True, m)"
    and content:
      "(if truthy (dict_get kvs ''useAI'' (JBool False))
        then generate_content_with_ai env (dict_get kvs ''title'' (JStr ''Untitled''))
               (dict_get kvs ''template'' (JStr ''tech-report''))
               (dict_get kvs ''points'' (JArr []))
               (dict_get kvs ''language'' (JStr ''fr''))
        else template_content env (dict_get kvs ''points'' (JArr []))) = Inr content"
    and html:
      "generate_html_document env (dict_get kvs ''title'' (JStr ''Untitled''))
         (dict_get kvs ''description'' (JStr []))
         (dict_get kvs ''author'' (JStr ''Emmanuel'')) content
         (dict_get kvs ''coverStyle'' (JStr ''gradient-blue''))
         (dict_get kvs ''primaryColor'' (JStr ''#3182ce'')) = Inr html"
  shows "\<exists>sz fs'. api_generate_pdf env fs (Inr (JObj kvs)) =
           (JsonResponse
              (JObj [(''success'', JBool True),
                     (''message'', JStr ''PDF generated successfully''),
                     (''filename'',
                        JStr (''document-'' @ str_int (py_int (t_filename env)) @ ''.pdf'')),
                     (''downloadUrl'',
                        JStr (''/download/'' @ ''document-'' @ str_int (py_int (t_filename env))
                              @ ''.pdf'')),
                     (''size'', JInt sz),
                     (''generationTime'', JInt (py_int (t_end env - t_start env)))])
              200,
            fs')"
proof -
  from generate_pdf_result [OF html, of fs]
  obtain info fs' where
    g: "generate_pdf env fs (dict_get kvs ''title'' (JStr ''Untitled''))
          (dict_get kvs ''description'' (JStr [])) content
          (dict_get kvs ''author'' (JStr ''Emmanuel''))
          (dict_get kvs ''coverStyle'' (JStr ''gradient-blue''))
          (dict_get kvs ''primaryColor'' (JStr ''#3182ce'')) = Inr (Some info, fs')"
    and n: "filename info = ''document-'' @ str_int (py_int (t_filename env)) @ ''.pdf''"
    by blast
  show ?thesis
    using valid content g n
    by (simp add: api_generate_pdf_def api_generate_pdf_try_def Let_def)
qed

lemma generate_html_document_hashable:
  "hashable cover_style \<Longrightarrow>
   \<exists>html. generate_html_document env title description author content cover_style primary_color
            = Inr html"
  by (simp add: generate_html_document_def Let_def)

text \<open>
  Claim C7. In a call of \<^verbatim>\<open>generate_content_with_ai\<close> that reaches the completions API (a
  key is configured and the prompt could be built) and in which the API call raises, the
  function returns, without raising, \<^verbatim>\<open><h2>Content</h2>\<close> followed by one
  \<^verbatim>\<open><h3>\<close>/\<^verbatim>\<open><p>\<close> pair for each key point, the pairs joined by newlines. The generation
  endpoint then completes: for a valid request with \<^verbatim>\<open>useAI\<close> set and a hashable cover
  style it answers with status 200 and \<^verbatim>\<open>success\<close> true.
\<close>


theorem ai_failure_falls_back:
  assumes "API_KEY env \<noteq> ''demo''"
    and "build_prompt env title template points language = Inr prompt"
    and "completions_create env prompt = Inl e"
  shows "(\<exists>ps. py_iter points = Inr ps
           \<and> generate_content_with_ai env title template points language =
               Inr (''<h2>Content</h2>''
                    @ join nl (map (\<lambda>p. ''<h3>'' @ py_str env p @ ''</h3><p>Detailed content about ''
                                        @ py_str env p @ ''...</p>'') ps)))
       \<and> (validate_request (JObj kvs) = Inr (True, m)
            \<and> truthy (dict_get kvs ''useAI'' (JBool False))
            \<and> title = dict_get kvs ''title'' (JStr ''Untitled'')
            \<and> template = dict_get kvs ''template'' (JStr ''tech-report'')
            \<and> points = dict_get kvs ''points'' (JArr [])
            \<and> language = dict_get kvs ''language'' (JStr ''fr'')
            \<and> hashable (dict_get kvs ''coverStyle'' (JStr ''gradient-blue'')) \<longrightarrow>
          (\<exists>rest fs'. api_generate_pdf env fs (Inr (JObj kvs)) =
             (JsonResponse (JObj ((''success'', JBool True) # rest)) 200, fs')))"
proof -
  from assms(2) obtain ps where ps: "py_iter points = Inr ps"
    by (auto simp: build_prompt_def split: sum.splits)
  have "request_completion env prompt = Inl e"
    using assms(3) by (simp add: request_completion_def)
  then have fallback: "generate_content_with_ai env title template points language =
      Inr (''<h2>Content</h2>'' @ join nl (map (fallback_item env) ps))"
    using assms(1,2) ps by (simp add: generate_content_with_ai_def)
  have item: "fallback_item env = (\<lambda>p. ''<h3>'' @ py_str env p @ ''</h3><p>Detailed content about ''
                                        @ py_str env p @ ''...</p>'')"
    by (rule ext) (simp add: fallback_item_def)
  have endpoint: "\<exists>rest fs'. api_generate_pdf env fs (Inr (JObj kvs)) =
             (JsonResponse (JObj ((''success'', JBool True) # rest)) 200, fs')"
    if v: "validate_request (JObj kvs) = Inr (True, m)"
      and ai: "truthy (dict_get kvs ''useAI'' (JBool False))"
      and args: "title = dict_get kvs ''title'' (JStr ''Untitled'')"
                "template = dict_get kvs ''template'' (JStr ''tech-report'')"
                "points = dict_get kvs ''points'' (JArr [])"
                "language = dict_get kvs ''language'' (JStr ''fr'')"
      and h: "hashable (dict_get kvs ''coverStyle'' (JStr ''gradient-blue''))"
  proof -
    let ?content = "''<h2>Content</h2>'' @ join nl (map (fallback_item env) ps)"
    from generate_html_document_hashable [OF h]
    obtain html where html:
      "generate_html_document env (dict_get kvs ''title'' (JStr ''Untitled''))
         (dict_get kvs ''description'' (JStr []))
         (dict_get kvs ''author'' (JStr ''Emmanuel'')) ?content
         (dict_get kvs ''coverStyle'' (JStr ''gradient-blue''))
         (dict_get kvs ''primaryColor'' (JStr ''#3182ce'')) = Inr html"
      by blast
    have c: "(if truthy (dict_get kvs ''useAI'' (JBool False))
        then generate_content_with_ai env (dict_get kvs ''title'' (JStr ''Untitled''))
               (dict_get kvs ''template'' (JStr ''tech-report''))
               (dict_get kvs ''points'' (JArr []))
               (dict_get kvs ''language'' (JStr ''fr''))
        else template_content env (dict_get kvs ''points'' (JArr []))) = Inr ?content"
      using ai fallback args by simp
    from api_generate_pdf_success [OF v c html, of fs] show ?thesis by blast
  qed
  show ?thesis
    using ps fallback item endpoint by auto
qed

theorem ai_failure_falls_back_witness:
  "generate_content_with_ai sample_env (JStr ''Guide'') (JStr ''api-guide'')
      (JArr [JStr ''one'', JStr ''two'']) (JStr ''fr'') =
     Inr (''<h2>Content</h2><h3>one</h3><p>Detailed content about one...</p>'' @ nl
          @ ''<h3>two</h3><p>Detailed content about two...</p>'')
   \<and> (\<exists>rest fs'. api_generate_pdf sample_env []
           (Inr (JObj [(''title'', JStr ''Guide''), (''template'', JStr ''api-guide''),
                       (''points'', JArr [JStr ''one'', JStr ''two'']), (''useAI'', JBool True)])) =
         (JsonResponse (JObj ((''success'', JBool True) # rest)) 200, fs'))"
proof -
  let ?kvs = "[(''title'', JStr ''Guide''), (''template'', JStr ''api-guide''),
               (''points'', JArr [JStr ''one'', JStr ''two'']), (''useAI'', JBool True)]"
  have k: "API_KEY sample_env \<noteq> ''demo''" by (simp add: sample_env_def)
  obtain prompt where p: "build_prompt sample_env (JStr ''Guide'') (JStr ''api-guide'')
      (JArr [JStr ''one'', JStr ''two'']) (JStr ''fr'') = Inr prompt"
    by (simp add: build_prompt_def instruction_for_def)
  have c: "completions_create sample_env prompt = Inl APIError" by (simp add: sample_env_def)
  have v: "validate_request (JObj ?kvs) = Inr (True, ''Valid'')"
    by (simp add: validate_request_obj dict_get_def)
  from ai_failure_falls_back [OF k p c, of ?kvs "''Valid''" "[]"] v
  show ?thesis by (simp add: dict_get_def py_str_def)
qed

section \<open>Download\<close>




lemma UPLOAD_DIR_eq: "UPLOAD_DIR = (False, [''generated_pdfs''])"
  by (simp add: UPLOAD_DIR_def Path_def path_parts_def)







section \<open>Conversion without pdfkit\<close>












section \<open>Cleanup\<close>


lemma st_mtime_Some: "st_mtime fs p = Some m \<longleftrightarrow> (\<exists>bytes. map_of fs p = Some (RegFile bytes m))"
  by (auto simp: st_mtime_def split: option.splits node.splits)

lemma st_mtime_delete:
  "st_mtime (AList.delete p fs) q = (if q = p then None else st_mtime fs q)"
  by (simp add: st_mtime_def delete_conv')

lemma cleanup_loop_step:
  "cleanup_loop c (p # ps) fs n =
     (if \<exists>m. st_mtime fs p = Some m \<and> m < c
      then cleanup_loop c ps (AList.delete p fs) (n + 1)
      else cleanup_loop c ps fs n)"
  by (auto split: option.splits)

lemma cleanup_loop_map:
  "cleanup_loop c ps fs n = (fs', n') \<Longrightarrow>
     map_of fs' q =
       (if q \<in> set ps \<and> (\<exists>m. st_mtime fs q = Some m \<and> m < c) then None else map_of fs q)"
proof (induction ps arbitrary: fs n)
  case Nil
  then show ?case by simp
next
  case (Cons p ps)
  show ?case
  proof (cases "\<exists>m. st_mtime fs p = Some m \<and> m < c")
    case True
    with Cons.prems have run: "cleanup_loop c ps (AList.delete p fs) (n + 1) = (fs', n')"
      by (simp only: cleanup_loop_step if_True)
    have ih: "map_of fs' q =
        (if q \<in> set ps \<and> (\<exists>m. st_mtime (AList.delete p fs) q = Some m \<and> m < c)
         then None else map_of (AList.delete p fs) q)"
      by (rule Cons.IH [OF run])
    show ?thesis
    proof (cases "q = p")
      case True
      then show ?thesis using ih \<open>\<exists>m. st_mtime fs p = Some m \<and> m < c\<close>
        by (simp add: st_mtime_delete delete_conv')
    next
      case False
      then show ?thesis unfolding ih by (auto simp: st_mtime_delete delete_conv')
    qed
  next
    case False
    with Cons.prems have run: "cleanup_loop c ps fs n = (fs', n')"
      by (simp only: cleanup_loop_step if_False)
    have ih: "map_of fs' q =
        (if q \<in> set ps \<and> (\<exists>m. st_mtime fs q = Some m \<and> m < c) then None else map_of fs q)"
      by (rule Cons.IH [OF run])
    show ?thesis
    proof (cases "q = p")
      case True
      then show ?thesis using ih False by auto
    next
      case False
      then show ?thesis using ih by simp
    qed
  qed
qed

lemma cleanup_loop_count:
  "cleanup_loop c ps fs n = (fs', n') \<Longrightarrow>
     n' = n + card {q \<in> set ps. \<exists>m. st_mtime fs q = Some m \<and> m < c}"
proof (induction ps arbitrary: fs n)
  case Nil
  then show ?case by simp
next
  case (Cons p ps)
  show ?case
  proof (cases "\<exists>m. st_mtime fs p = Some m \<and> m < c")
    case True
    with Cons.prems have run: "cleanup_loop c ps (AList.delete p fs) (n + 1) = (fs', n')"
      by (simp only: cleanup_loop_step if_True)
    have ih: "n' = n + 1 + card {q \<in> set ps. \<exists>m. st_mtime (AList.delete p fs) q = Some m \<and> m < c}"
      by (rule Cons.IH [OF run])
    have set_eq: "{q \<in> set (p # ps). \<exists>m. st_mtime fs q = Some m \<and> m < c} =
        insert p {q \<in> set ps. \<exists>m. st_mtime (AList.delete p fs) q = Some m \<and> m < c}"
      using True by (auto simp: st_mtime_delete)
    have notin: "p \<notin> {q \<in> set ps. \<exists>m. st_mtime (AList.delete p fs) q = Some m \<and> m < c}"
      by (simp add: st_mtime_delete)
    have fin: "finite {q \<in> set ps. \<exists>m. st_mtime (AList.delete p fs) q = Some m \<and> m < c}"
      by simp
    show ?thesis
      unfolding set_eq card_insert_disjoint [OF fin notin] using ih by simp
  next
    case False
    with Cons.prems have run: "cleanup_loop c ps fs n = (fs', n')"
      by (simp only: cleanup_loop_step if_False)
    have ih: "n' = n + card {q \<in> set ps. \<exists>m. st_mtime fs q = Some m \<and> m < c}"
      by (rule Cons.IH [OF run])
    have set_eq: "{q \<in> set (p # ps). \<exists>m. st_mtime fs q = Some m \<and> m < c} =
        {q \<in> set ps. \<exists>m. st_mtime fs q = Some m \<and> m < c}"
      using False by auto
    show ?thesis unfolding set_eq by (rule ih)
  qed
qed

lemma set_glob_star:
  "set (glob_star fs d) = {p \<in> fst ` set fs. snd p \<noteq> [] \<and> parent p = d}"
  by (auto simp: glob_star_def)

lemma st_mtime_in_keys: "st_mtime fs p = Some m \<Longrightarrow> p \<in> fst ` set fs"
  by (auto simp: st_mtime_Some dest!: map_of_SomeD intro: rev_image_eqI)

text \<open>
  Claim C4. After \<^verbatim>\<open>POST /api/cleanup\<close> at time \<open>now\<close>, a path of the file system is gone
  if and only if it was a regular file directly in the upload directory whose modification
  time was strictly earlier than \<open>now\<close> minus 7 days (\<open>7 * 24 * 60 * 60\<close> seconds); every
  other path, a file at or after the cutoff among them, holds what it held before. The
  response has status 200 and its message starts with the number of files that were
  deleted.
\<close>


theorem cleanup_deletes_exactly_old_files:
  "map_of (snd (cleanup_old_files now fs)) p =
     (if snd p \<noteq> [] \<and> parent p = UPLOAD_DIR
         \<and> (\<exists>bytes m. map_of fs p = Some (RegFile bytes m) \<and> m < now - 7 * 24 * 60 * 60)
      then None else map_of fs p)
   \<and> fst (cleanup_old_files now fs) =
       JsonResponse
         (JObj [(''message'',
                 JStr (str_nat (card {q. snd q \<noteq> [] \<and> parent q = UPLOAD_DIR
                                        \<and> (\<exists>bytes m. map_of fs q = Some (RegFile bytes m)
                                                      \<and> m < now - 7 * 24 * 60 * 60)})
                       @ '' old files deleted'')),
                (''success'', JBool True)]) 200"
proof -
  let ?c = "now - 7 * 24 * 60 * 60"
  obtain fs' n' where run: "cleanup_loop ?c (glob_star fs UPLOAD_DIR) fs 0 = (fs', n')"
    by (cases "cleanup_loop ?c (glob_star fs UPLOAD_DIR) fs 0") blast
  note spec_map = cleanup_loop_map [OF run, of p]
  note spec_count = cleanup_loop_count [OF run]
  have res: "cleanup_old_files now fs =
      (JsonResponse (JObj [(''message'', JStr (str_nat n' @ '' old files deleted'')),
                           (''success'', JBool True)]) 200, fs')"
    using run by (simp add: cleanup_old_files_def)
  have old_iff: "(q \<in> set (glob_star fs UPLOAD_DIR) \<and> (\<exists>m. st_mtime fs q = Some m \<and> m < ?c)) \<longleftrightarrow>
      (snd q \<noteq> [] \<and> parent q = UPLOAD_DIR
        \<and> (\<exists>bytes m. map_of fs q = Some (RegFile bytes m) \<and> m < ?c))" for q
    using st_mtime_in_keys [of fs q] by (auto simp: set_glob_star st_mtime_Some)
  have "{q \<in> set (glob_star fs UPLOAD_DIR). \<exists>m. st_mtime fs q = Some m \<and> m < ?c} =
      {q. snd q \<noteq> [] \<and> parent q = UPLOAD_DIR
          \<and> (\<exists>bytes m. map_of fs q = Some (RegFile bytes m) \<and> m < ?c)}"
    using old_iff by blast
  then have count: "n' = card {q. snd q \<noteq> [] \<and> parent q = UPLOAD_DIR
          \<and> (\<exists>bytes m. map_of fs q = Some (RegFile bytes m) \<and> m < ?c)}"
    using spec_count by simp
  have "map_of fs' p = (if snd p \<noteq> [] \<and> parent p = UPLOAD_DIR
         \<and> (\<exists>bytes m. map_of fs p = Some (RegFile bytes m) \<and> m < ?c)
      then None else map_of fs p)"
    unfolding spec_map using old_iff [of p] by simp
  then show ?thesis using count res by simp
qed

theorem cleanup_deletes_exactly_old_files_witness:
  "map_of (snd (cleanup_old_files 1000000
            [(UPLOAD_DIR, Directory 4096),
             ((False, [''generated_pdfs'', ''old.pdf'']), RegFile ''a'' 395199),
             ((False, [''generated_pdfs'', ''edge.pdf'']), RegFile ''b'' 395200),
             ((False, [''notes.txt'']), RegFile ''c'' 5)]))
       (False, [''generated_pdfs'', ''old.pdf'']) = None
   \<and> map_of (snd (cleanup_old_files 1000000
            [(UPLOAD_DIR, Directory 4096),
             ((False, [''generated_pdfs'', ''old.pdf'']), RegFile ''a'' 395199),
             ((False, [''generated_pdfs'', ''edge.pdf'']), RegFile ''b'' 395200),
             ((False, [''notes.txt'']), RegFile ''c'' 5)]))
       (False, [''generated_pdfs'', ''edge.pdf'']) = Some (RegFile ''b'' 395200)
   \<and> map_of (snd (cleanup_old_files 1000000
            [(UPLOAD_DIR, Directory 4096),
             ((False, [''generated_pdfs'', ''old.pdf'']), RegFile ''a'' 395199),
             ((False, [''generated_pdfs'', ''edge.pdf'']), RegFile ''b'' 395200),
             ((False, [''notes.txt'']), RegFile ''c'' 5)]))
       (False, [''notes.txt'']) = Some (RegFile ''c'' 5)
   \<and> fst (cleanup_old_files 1000000
            [(UPLOAD_DIR, Directory 4096),
             ((False, [''generated_pdfs'', ''old.pdf'']), RegFile ''a'' 395199),
             ((False, [''generated_pdfs'', ''edge.pdf'']), RegFile ''b'' 395200),
             ((False, [''notes.txt'']), RegFile ''c'' 5)]) =
       JsonResponse (JObj [(''message'', JStr ''1 old files deleted''), (''success'', JBool True)]) 200"
proof -
  let ?fs = "[(UPLOAD_DIR, Directory 4096),
             ((False, [''generated_pdfs'', ''old.pdf'']), RegFile ''a'' 395199),
             ((False, [''generated_pdfs'', ''edge.pdf'']), RegFile ''b'' 395200),
             ((False, [''notes.txt'']), RegFile ''c'' (5::rat))]"
  have count: "fst (cleanup_old_files 1000000 ?fs) =
       JsonResponse (JObj [(''message'', JStr ''1 old files deleted''), (''success'', JBool True)]) 200"
    by (simp add: cleanup_old_files_def glob_star_def parent_def UPLOAD_DIR_eq st_mtime_def
          str_nat.simps digit_char_def)
  show ?thesis
    using cleanup_deletes_exactly_old_files [of 1000000 ?fs "(False, [''generated_pdfs'', ''old.pdf''])"]
          cleanup_deletes_exactly_old_files [of 1000000 ?fs "(False, [''generated_pdfs'', ''edge.pdf''])"]
          cleanup_deletes_exactly_old_files [of 1000000 ?fs "(False, [''notes.txt''])"]
          count
    by (simp add: parent_def UPLOAD_DIR_eq)
qed

end
